theory Spec2Isabelle
  imports Main
begin

section \<open>JavaScript strings\<close>

text \<open>
  A JavaScript string is a sequence of code units. The model uses \<^typ>\<open>string\<close>, whose
  characters are the code units below 256 (U+0000 to U+00FF). On that range
  \<^verbatim>\<open>String.prototype.toLowerCase\<close> maps each of A-Z, and each of U+00C0 to U+00DE
  except the multiplication sign U+00D7, to the code unit 32 above it, and leaves every
  other code unit alone; the result has the length of the argument.
\<close>

definition toLowerCase_char :: "char \<Rightarrow> char" where
  "toLowerCase_char c =
     (let n = (of_char c :: nat)
      in if (65 \<le> n \<and> n \<le> 90) \<or> (192 \<le> n \<and> n \<le> 222 \<and> n \<noteq> 215)
         then char_of (n + 32) else c)"

definition toLowerCase :: "string \<Rightarrow> string" where
  "toLowerCase s = map toLowerCase_char s"

text \<open>
  \<^verbatim>\<open>s.includes(q)\<close>: does \<open>q\<close> occur in \<open>s\<close> as a run of consecutive code units,
  searched from position 0 on. The empty string occurs in every string.
\<close>

fun startsWith :: "string \<Rightarrow> string \<Rightarrow> bool" where
  "startsWith s [] = True"
| "startsWith [] (d # q) = False"
| "startsWith (c # s) (d # q) = (c = d \<and> startsWith s q)"

fun includes_str :: "string \<Rightarrow> string \<Rightarrow> bool" where
  "includes_str [] q = (q = [])"
| "includes_str (c # s) q = (startsWith (c # s) q \<or> includes_str s q)"

text \<open>
  \<^verbatim>\<open>String.prototype.trim\<close> removes the white space and line terminators at both
  ends. Below 256 these are TAB, LF, VT, FF, CR, SPACE and the no-break space U+00A0.
\<close>

definition isWhiteSpace :: "char \<Rightarrow> bool" where
  "isWhiteSpace c = (of_char c \<in> {9, 10, 11, 12, 13, 32, 160 :: nat})"

definition trimStart :: "string \<Rightarrow> string" where
  "trimStart s = dropWhile isWhiteSpace s"

definition trimEnd :: "string \<Rightarrow> string" where
  "trimEnd s = rev (dropWhile isWhiteSpace (rev s))"

definition trim :: "string \<Rightarrow> string" where
  "trim s = trimEnd (trimStart s)"

section \<open>Data model\<close>

text \<open>
  \<^verbatim>\<open>export type Task = { id; title; description; status; priority; assignee? }\<close>.
  The field \<^verbatim>\<open>id\<close> is \<open>task_id\<close> here, as \<open>id\<close> is the identity function of HOL.
\<close>

datatype priority = Low | Medium | High

record task =
  task_id :: string
  title :: string
  description :: string
  status :: string
  priority :: priority
  assignee :: "string option"

text \<open>
  \<^verbatim>\<open>Partial<Task>\<close>: every key may be absent (\<open>None\<close>). The key \<^verbatim>\<open>assignee\<close> is itself
  optional in \<^verbatim>\<open>Task\<close>, so when present it carries a \<^typ>\<open>string option\<close>.
\<close>

record partial_task =
  upd_id :: "string option"
  upd_title :: "string option"
  upd_description :: "string option"
  upd_status :: "string option"
  upd_priority :: "priority option"
  upd_assignee :: "string option option"

definition no_updates :: partial_task where
  "no_updates = \<lparr>upd_id = None, upd_title = None, upd_description = None,
     upd_status = None, upd_priority = None, upd_assignee = None\<rparr>"

text \<open>The object spread \<^verbatim>\<open>{ ...task, ...updates }\<close>: a key of \<open>updates\<close> wins.\<close>

definition spread :: "task \<Rightarrow> partial_task \<Rightarrow> task" where
  "spread t u =
     \<lparr>task_id = (case upd_id u of None \<Rightarrow> task_id t | Some v \<Rightarrow> v),
      title = (case upd_title u of None \<Rightarrow> title t | Some v \<Rightarrow> v),
      description = (case upd_description u of None \<Rightarrow> description t | Some v \<Rightarrow> v),
      status = (case upd_status u of None \<Rightarrow> status t | Some v \<Rightarrow> v),
      priority = (case upd_priority u of None \<Rightarrow> priority t | Some v \<Rightarrow> v),
      assignee = (case upd_assignee u of None \<Rightarrow> assignee t | Some v \<Rightarrow> v)\<rparr>"

text \<open>The object literal \<^verbatim>\<open>newTask\<close> that \<^verbatim>\<open>handleAddTask\<close> sends to the store.\<close>

record new_task =
  new_title :: string
  new_description :: string
  new_status :: string
  new_priority :: priority

section \<open>The remote store and the notifications\<close>

text \<open>
  A value that reaches a \<^verbatim>\<open>catch (err)\<close>: the handlers only ask
  \<^verbatim>\<open>err instanceof Error ? err.message : fallback\<close>.
\<close>

datatype js_error = ErrorInstance string | OtherValue

fun error_message :: "js_error \<Rightarrow> string \<Rightarrow> string" where
  "error_message (ErrorInstance m) fallback = m"
| "error_message OtherValue fallback = fallback"

text \<open>
  What awaiting a store query gives: the promise rejects, or it resolves to
  \<^verbatim>\<open>{ data, error }\<close> (queries without \<^verbatim>\<open>select\<close> carry no data: \<open>'a\<close> is \<^typ>\<open>unit\<close>).
\<close>

datatype 'a response = Rejected js_error | Resolved 'a "js_error option"

record store =
  select_all :: "task list option response"
  insert_single :: "new_task \<Rightarrow> task option response"
  update_eq_id :: "string \<Rightarrow> partial_task \<Rightarrow> unit response"
  delete_eq_id :: "string \<Rightarrow> unit response"

datatype request =
    SelectAll
  | Insert new_task
  | Update string partial_task
  | Delete string

datatype effect = RemoteCall request | ToastSuccess string | ToastError string

text \<open>
  The body of a \<^verbatim>\<open>try\<close> up to and including \<^verbatim>\<open>if (supabaseError) throw supabaseError\<close>:
  either the thrown value, or the data of the reply.
\<close>

fun awaited :: "'a response \<Rightarrow> js_error + 'a" where
  "awaited (Rejected e) = Inl e"
| "awaited (Resolved d (Some e)) = Inl e"
| "awaited (Resolved d None) = Inr d"

text \<open>A query fails when the handler's \<^verbatim>\<open>catch\<close> block is reached.\<close>

definition failed :: "'a response \<Rightarrow> bool" where
  "failed r = (case awaited r of Inl e \<Rightarrow> True | Inr d \<Rightarrow> False)"

text \<open>
  The contract of the store's insert, an external service: the record it returns for a
  submitted candidate carries the candidate's title, description, status and priority
  (beside the identifier the store assigns).
\<close>

definition canonical_for :: "new_task \<Rightarrow> task \<Rightarrow> bool" where
  "canonical_for nt data \<longleftrightarrow>
     title data = new_title nt \<and> description data = new_description nt \<and>
     status data = new_status nt \<and> priority data = new_priority nt"

section \<open>The board controller\<close>

record board_state =
  tasks :: "task list"
  activeId :: "string option"
  searchQuery :: string
  isLoading :: bool
  error :: "string option"

definition defaultColumns :: "string list" where
  "defaultColumns = [''Todo'', ''In Progress'', ''Done'']"

definition initial_state :: board_state where
  "initial_state = \<lparr>tasks = [], activeId = None, searchQuery = [], isLoading = True,
     error = None\<rparr>"

subsection \<open>View computations\<close>

definition filteredTasks :: "board_state \<Rightarrow> task list" where
  "filteredTasks st =
     filter (\<lambda>task. includes_str (toLowerCase (title task)) (toLowerCase (searchQuery st)))
       (tasks st)"

definition tasksByColumn :: "board_state \<Rightarrow> (string \<rightharpoonup> task list)" where
  "tasksByColumn st =
     foldl (\<lambda>acc columnId.
              acc(columnId \<mapsto>
                filter (\<lambda>task. toLowerCase (status task) = toLowerCase columnId)
                  (filteredTasks st)))
       Map.empty defaultColumns"

text \<open>The prop \<^verbatim>\<open>tasks={tasksByColumn[columnId] || []}\<close> handed to a column.\<close>

definition column_tasks :: "board_state \<Rightarrow> string \<Rightarrow> task list" where
  "column_tasks st columnId =
     (case tasksByColumn st columnId of None \<Rightarrow> [] | Some ts \<Rightarrow> ts)"

text \<open>
  One render pass over the columns, with the state threaded through it: the pass reads
  the state and has no \<^verbatim>\<open>setTasks\<close> in it.
\<close>

definition render_columns :: "board_state \<Rightarrow> (string \<times> task list) list \<times> board_state" where
  "render_columns st = (map (\<lambda>columnId. (columnId, column_tasks st columnId)) defaultColumns, st)"

subsection \<open>Handlers\<close>

text \<open>
  Each handler runs against the state of the render it was created in, and awaits at
  most one store query. It returns the state after its last \<^verbatim>\<open>set...\<close> call and what
  it did to the outside, in order.
\<close>

definition fetchTasks :: "store \<Rightarrow> board_state \<Rightarrow> board_state \<times> effect list" where
  "fetchTasks db st =
     (let st1 = st\<lparr>isLoading := True, error := None\<rparr>
      in case awaited (select_all db) of
           Inr data \<Rightarrow>
             (st1\<lparr>tasks := (case data of None \<Rightarrow> [] | Some ts \<Rightarrow> ts), isLoading := False\<rparr>,
              [RemoteCall SelectAll])
         | Inl err \<Rightarrow>
             (let message = error_message err ''Failed to fetch tasks''
              in (st1\<lparr>error := Some message, isLoading := False\<rparr>,
                  [RemoteCall SelectAll, ToastError message])))"

definition handleDragEnd ::
  "store \<Rightarrow> board_state \<Rightarrow> string \<Rightarrow> string option \<Rightarrow> board_state \<times> effect list" where
  "handleDragEnd db st active over =
     (case over of
        None \<Rightarrow> (st, [])
      | Some overColumn \<Rightarrow>
         (case find (\<lambda>task. task_id task = active) (tasks st) of
            None \<Rightarrow> (st\<lparr>activeId := None\<rparr>, [])
          | Some activeTask \<Rightarrow>
             if status activeTask \<noteq> overColumn then
               (let upd = no_updates\<lparr>upd_status := Some overColumn\<rparr>;
                    call = RemoteCall (Update (task_id activeTask) upd)
                in case awaited (update_eq_id db (task_id activeTask) upd) of
                     Inr u \<Rightarrow>
                       (st\<lparr>tasks := map (\<lambda>task. if task_id task = task_id activeTask
                                                 then task\<lparr>status := overColumn\<rparr> else task)
                                       (tasks st),
                           activeId := None\<rparr>,
                        [call, ToastSuccess ''Task moved successfully''])
                   | Inl err \<Rightarrow>
                       (st\<lparr>activeId := None\<rparr>,
                        [call, ToastError (error_message err ''Failed to update task'')]))
             else (st\<lparr>activeId := None\<rparr>, [])))"

definition handleAddTask ::
  "store \<Rightarrow> board_state \<Rightarrow> string \<Rightarrow> string \<Rightarrow> string \<Rightarrow> board_state \<times> effect list" where
  "handleAddTask db st columnId ttl descr =
     (let newTask = \<lparr>new_title = ttl, new_description = descr, new_status = columnId,
                     new_priority = Medium\<rparr>;
          call = RemoteCall (Insert newTask)
      in case awaited (insert_single db newTask) of
           Inr (Some data) \<Rightarrow>
             (st\<lparr>tasks := tasks st @ [data]\<rparr>, [call, ToastSuccess ''Task created successfully''])
         | Inr None \<Rightarrow> (st, [call])
         | Inl err \<Rightarrow> (st, [call, ToastError (error_message err ''Failed to create task'')]))"

definition handleDeleteTask ::
  "store \<Rightarrow> board_state \<Rightarrow> string \<Rightarrow> board_state \<times> effect list" where
  "handleDeleteTask db st taskId =
     (let call = RemoteCall (Delete taskId)
      in case awaited (delete_eq_id db taskId) of
           Inr u \<Rightarrow>
             (st\<lparr>tasks := filter (\<lambda>task. task_id task \<noteq> taskId) (tasks st)\<rparr>,
              [call, ToastSuccess ''Task deleted successfully''])
         | Inl err \<Rightarrow> (st, [call, ToastError (error_message err ''Failed to delete task'')]))"

definition handleUpdateTask ::
  "store \<Rightarrow> board_state \<Rightarrow> string \<Rightarrow> partial_task \<Rightarrow> board_state \<times> effect list" where
  "handleUpdateTask db st taskId updates =
     (let call = RemoteCall (Update taskId updates)
      in case awaited (update_eq_id db taskId updates) of
           Inr u \<Rightarrow>
             (st\<lparr>tasks := map (\<lambda>task. if task_id task = taskId then spread task updates
                                       else task) (tasks st)\<rparr>,
              [call, ToastSuccess ''Task updated successfully''])
         | Inl err \<Rightarrow> (st, [call, ToastError (error_message err ''Failed to update task'')]))"

section \<open>The column's new-task form\<close>

record column_form =
  isAddingTask :: bool
  newTaskTitle :: string
  newTaskDescription :: string

text \<open>
  \<^verbatim>\<open>handleAddTask\<close> of the column with identifier \<open>columnId\<close>, whose \<^verbatim>\<open>onAddTask\<close> prop
  is \<^verbatim>\<open>(title, description) => handleAddTask(columnId, title, description)\<close> of the
  board. The empty string is the only falsy string.
\<close>

definition column_handleAddTask ::
  "store \<Rightarrow> string \<Rightarrow> column_form \<times> board_state \<Rightarrow> (column_form \<times> board_state) \<times> effect list" where
  "column_handleAddTask db columnId fs =
     (case fs of (form, st) \<Rightarrow>
        if trim (newTaskTitle form) \<noteq> [] then
          (case handleAddTask db st columnId (trim (newTaskTitle form))
                  (trim (newTaskDescription form)) of
             (st', effs) \<Rightarrow>
               ((form\<lparr>newTaskTitle := [], newTaskDescription := [], isAddingTask := False\<rparr>, st'),
                effs))
        else ((form, st), []))"

text \<open>The \<^verbatim>\<open>disabled\<close> attribute of the form's "Add Task" button.\<close>

definition add_button_disabled :: "column_form \<Rightarrow> bool" where
  "add_button_disabled form = (trim (newTaskTitle form) = [])"

section \<open>Sample data\<close>

definition task1 :: task where
  "task1 = \<lparr>task_id = ''1'', title = ''Buy Milk'', description = [], status = ''todo'',
     priority = Medium, assignee = None\<rparr>"

definition task2 :: task where
  "task2 = \<lparr>task_id = ''2'', title = ''Ship it'', description = ''v1'', status = ''Done'',
     priority = High, assignee = Some ''ali''\<rparr>"

definition sample_board :: board_state where
  "sample_board = \<lparr>tasks = [task1, task2], activeId = Some ''1'', searchQuery = ''MILK'',
     isLoading = False, error = None\<rparr>"

text \<open>A store that accepts every query, and gives a created task the identifier 3.\<close>

definition store_up :: store where
  "store_up =
     \<lparr>select_all = Resolved (Some [task1, task2]) None,
      insert_single = (\<lambda>nt. Resolved (Some \<lparr>task_id = ''3'', title = new_title nt,
          description = new_description nt, status = new_status nt,
          priority = new_priority nt, assignee = None\<rparr>) None),
      update_eq_id = (\<lambda>i u. Resolved () None),
      delete_eq_id = (\<lambda>i. Resolved () None)\<rparr>"

text \<open>A store that fails every query, in each of the ways a query can fail.\<close>

definition store_down :: store where
  "store_down =
     \<lparr>select_all = Rejected OtherValue,
      insert_single = (\<lambda>nt. Resolved None (Some (ErrorInstance ''permission denied''))),
      update_eq_id = (\<lambda>i u. Rejected (ErrorInstance ''Failed to fetch'')),
      delete_eq_id = (\<lambda>i. Resolved () (Some OtherValue))\<rparr>"

text \<open>A store whose listing holds one record twice.\<close>

definition store_dup :: store where
  "store_dup = store_up\<lparr>select_all := Resolved (Some [task1, task1]) None\<rparr>"

text \<open>Two states of the new-task form: a blank title, and a title with spaces around it.\<close>

definition blank_form :: column_form where
  "blank_form = \<lparr>isAddingTask = True, newTaskTitle = ''   '', newTaskDescription = ''x''\<rparr>"

definition milk_form :: column_form where
  "milk_form = \<lparr>isAddingTask = True, newTaskTitle = '' Buy milk  '', newTaskDescription = '' 2 l ''\<rparr>"

section \<open>Facts about the string functions\<close>

lemma startsWith_iff: "startsWith s q \<longleftrightarrow> (\<exists>r. s = q @ r)"
  by (induction s q rule: startsWith.induct) auto

lemma includes_str_iff: "includes_str s q \<longleftrightarrow> (\<exists>p r. s = p @ q @ r)"
proof (induction s)
  case Nil
  then show ?case by simp
next
  case (Cons c s)
  show ?case
  proof
    assume "includes_str (c # s) q"
    then consider "startsWith (c # s) q" | "includes_str s q" by auto
    then show "\<exists>p r. c # s = p @ q @ r"
    proof cases
      case 1
      then obtain r where "c # s = q @ r" using startsWith_iff by blast
      then have "c # s = [] @ q @ r" by simp
      then show ?thesis by blast
    next
      case 2
      then obtain p r where "s = p @ q @ r" using Cons.IH by blast
      then have "c # s = (c # p) @ q @ r" by simp
      then show ?thesis by blast
    qed
  next
    assume "\<exists>p r. c # s = p @ q @ r"
    then obtain p r where pr: "c # s = p @ q @ r" by blast
    show "includes_str (c # s) q"
    proof (cases p)
      case Nil
      with pr have "c # s = q @ r" by simp
      then have "startsWith (c # s) q" using startsWith_iff by blast
      then show ?thesis by simp
    next
      case (Cons a p')
      with pr have "s = p' @ q @ r" by simp
      then have "includes_str s q" using Cons.IH by blast
      then show ?thesis by simp
    qed
  qed
qed

lemma trimEnd_decomp: "s = trimEnd s @ rev (takeWhile isWhiteSpace (rev s))"
proof -
  have "s = rev (takeWhile isWhiteSpace (rev s) @ dropWhile isWhiteSpace (rev s))" by simp
  also have "\<dots> = rev (dropWhile isWhiteSpace (rev s)) @ rev (takeWhile isWhiteSpace (rev s))"
    by (simp only: rev_append)
  finally show ?thesis by (simp only: trimEnd_def)
qed

lemma trim_decomp:
  "s = takeWhile isWhiteSpace s @ trim s @ rev (takeWhile isWhiteSpace (rev (trimStart s)))"
proof -
  have "s = takeWhile isWhiteSpace s @ trimStart s" by (simp add: trimStart_def)
  also have "trimStart s = trim s @ rev (takeWhile isWhiteSpace (rev (trimStart s)))"
    unfolding trim_def by (rule trimEnd_decomp)
  finally show ?thesis .
qed

lemma trim_strips_only_white_space:
  "\<exists>l r. s = l @ trim s @ r \<and> (\<forall>ch\<in>set l. isWhiteSpace ch) \<and> (\<forall>ch\<in>set r. isWhiteSpace ch)"
proof (intro exI conjI)
  show "s = takeWhile isWhiteSpace s @ trim s @ rev (takeWhile isWhiteSpace (rev (trimStart s)))"
    by (rule trim_decomp)
  show "\<forall>ch\<in>set (takeWhile isWhiteSpace s). isWhiteSpace ch"
    by (auto dest: set_takeWhileD)
  show "\<forall>ch\<in>set (rev (takeWhile isWhiteSpace (rev (trimStart s)))). isWhiteSpace ch"
    by (auto dest: set_takeWhileD)
qed

lemma trim_empty_iff: "trim s = [] \<longleftrightarrow> (\<forall>ch\<in>set s. isWhiteSpace ch)"
proof
  assume "trim s = []"
  then have "\<forall>ch\<in>set (trimStart s). isWhiteSpace ch"
    by (simp add: trim_def trimEnd_def dropWhile_eq_Nil_conv)
  then have "trimStart s = []"
  proof (rule contrapos_pp)
    assume n: "trimStart s \<noteq> []"
    then have "\<not> isWhiteSpace (hd (trimStart s))"
      unfolding trimStart_def by (rule hd_dropWhile)
    moreover from n have "hd (trimStart s) \<in> set (trimStart s)" by simp
    ultimately show "\<not> (\<forall>ch\<in>set (trimStart s). isWhiteSpace ch)" by blast
  qed
  then show "\<forall>ch\<in>set s. isWhiteSpace ch"
    by (simp add: trimStart_def dropWhile_eq_Nil_conv)
next
  assume "\<forall>ch\<in>set s. isWhiteSpace ch"
  then have "trimStart s = []" by (simp add: trimStart_def dropWhile_eq_Nil_conv)
  then show "trim s = []" by (simp add: trim_def trimEnd_def)
qed

lemma trim_ends:
  assumes "trim s \<noteq> []"
  shows "\<not> isWhiteSpace (hd (trim s))" and "\<not> isWhiteSpace (last (trim s))"
proof -
  let ?t = "trimStart s"
  from assms have d: "dropWhile isWhiteSpace (rev ?t) \<noteq> []"
    by (simp add: trim_def trimEnd_def)
  then have "\<not> isWhiteSpace (hd (dropWhile isWhiteSpace (rev ?t)))"
    by (rule hd_dropWhile)
  with d show "\<not> isWhiteSpace (last (trim s))"
    by (simp add: trim_def trimEnd_def last_rev)
  from d have t: "?t \<noteq> []" by auto
  then have "\<not> isWhiteSpace (hd ?t)" unfolding trimStart_def by (rule hd_dropWhile)
  moreover have "?t = trim s @ rev (takeWhile isWhiteSpace (rev ?t))"
    unfolding trim_def by (rule trimEnd_decomp)
  then have "hd ?t = hd (trim s)" using assms by (metis hd_append2)
  ultimately show "\<not> isWhiteSpace (hd (trim s))" by simp
qed

lemma defaultColumns_lower:
  "map toLowerCase defaultColumns = [''todo'', ''in progress'', ''done'']"
  by code_simp

lemma defaultColumns_distinct_ignoring_case: "distinct (map toLowerCase defaultColumns)"
  by (simp add: defaultColumns_lower)

section \<open>The column partition\<close>

lemma foldl_upd_lookup:
  "foldl (\<lambda>acc c. acc(c \<mapsto> f c)) m cs k = (if k \<in> set cs then Some (f k) else m k)"
  by (induction cs arbitrary: m) auto

lemma tasksByColumn_configured:
  "C \<in> set defaultColumns \<Longrightarrow>
   tasksByColumn st C =
     Some (filter (\<lambda>task. toLowerCase (status task) = toLowerCase C) (filteredTasks st))"
  by (simp add: tasksByColumn_def foldl_upd_lookup)

lemma column_tasks_configured:
  "C \<in> set defaultColumns \<Longrightarrow>
   column_tasks st C =
     filter (\<lambda>task. toLowerCase (status task) = toLowerCase C) (filteredTasks st)"
  by (simp add: column_tasks_def tasksByColumn_configured)

lemma column_tasks_unconfigured: "C \<notin> set defaultColumns \<Longrightarrow> column_tasks st C = []"
  by (simp add: column_tasks_def tasksByColumn_def foldl_upd_lookup)

lemma set_column_tasks:
  "C \<in> set defaultColumns \<Longrightarrow>
   set (column_tasks st C) =
     {T \<in> set (tasks st). toLowerCase (status T) = toLowerCase C \<and>
        (\<exists>p r. toLowerCase (title T) = p @ toLowerCase (searchQuery st) @ r)}"
  by (auto simp: column_tasks_configured filteredTasks_def includes_str_iff)

text \<open>
  C4. For a task \<open>T\<close> of the local collection, a configured column \<open>C\<close> and the search
  query of the state: \<open>T\<close> is in the list computed for \<open>C\<close> exactly when the lower-cased
  status of \<open>T\<close> is the lower-cased identifier of \<open>C\<close> and the lower-cased query occurs
  in the lower-cased title of \<open>T\<close> as a run of consecutive characters. The list is the
  one the render pass hands to the column, and the pass leaves the state as it was.
\<close>

theorem column_membership_iff:
  assumes "T \<in> set (tasks st)" and "C \<in> set defaultColumns"
  shows "(T \<in> set (column_tasks st C) \<longleftrightarrow>
            toLowerCase (status T) = toLowerCase C \<and>
            (\<exists>p r. toLowerCase (title T) = p @ toLowerCase (searchQuery st) @ r))
         \<and> (C, column_tasks st C) \<in> set (fst (render_columns st))
         \<and> snd (render_columns st) = st"
  using assms by (auto simp: set_column_tasks render_columns_def)

theorem column_membership_iff_witness:
  "task1 \<in> set (tasks sample_board) \<and> ''Todo'' \<in> set defaultColumns
   \<and> task1 \<in> set (column_tasks sample_board ''Todo'')
   \<and> snd (render_columns sample_board) = sample_board"
proof -
  have a: "task1 \<in> set (tasks sample_board)" by (simp add: sample_board_def)
  have b: "''Todo'' \<in> set defaultColumns" by (simp add: defaultColumns_def)
  have c: "toLowerCase (status task1) = toLowerCase ''Todo''" by code_simp
  have "toLowerCase (title task1) = ''buy '' @ toLowerCase (searchQuery sample_board) @ []"
    by code_simp
  then have d: "\<exists>p r. toLowerCase (title task1) = p @ toLowerCase (searchQuery sample_board) @ r"
    by blast
  from column_membership_iff [OF a b] c d a b show ?thesis by blast
qed

text \<open>
  C10. The lower-cased identifiers of the three configured columns are pairwise
  distinct, so a task in the computed list of one configured column is in the list of no
  other configured column: every task is in the list of at most one column.
\<close>

theorem column_partition_disjoint:
  assumes "C1 \<in> set defaultColumns" and "C2 \<in> set defaultColumns" and "C1 \<noteq> C2"
    and "T \<in> set (column_tasks st C1)"
  shows "T \<notin> set (column_tasks st C2)"
proof
  assume "T \<in> set (column_tasks st C2)"
  with assms(1,2,4) have "toLowerCase C1 = toLowerCase C2"
    by (simp add: column_tasks_configured)
  moreover have "inj_on toLowerCase (set defaultColumns)"
    using defaultColumns_distinct_ignoring_case by (simp add: distinct_map)
  ultimately have "C1 = C2" using assms(1,2) by (simp add: inj_on_def)
  with assms(3) show False by simp
qed

theorem column_partition_disjoint_witness:
  "''Todo'' \<in> set defaultColumns \<and> ''Done'' \<in> set defaultColumns \<and> ''Todo'' \<noteq> ''Done''
   \<and> task1 \<in> set (column_tasks sample_board ''Todo'')
   \<and> task1 \<notin> set (column_tasks sample_board ''Done'')"
proof -
  have a: "''Todo'' \<in> set defaultColumns" by (simp add: defaultColumns_def)
  have b: "''Done'' \<in> set defaultColumns" by (simp add: defaultColumns_def)
  have c: "''Todo'' \<noteq> ''Done''" by simp
  have d: "task1 \<in> set (column_tasks sample_board ''Todo'')" by code_simp
  from column_partition_disjoint [OF a b c d] a b c d show ?thesis by blast
qed

lemma unmatched_status_in_no_column:
  assumes "toLowerCase (status T) \<notin> set (map toLowerCase defaultColumns)"
  shows "T \<notin> set (column_tasks st C)"
proof (cases "C \<in> set defaultColumns")
  case True
  with assms show ?thesis by (auto simp: column_tasks_configured)
next
  case False
  then show ?thesis by (simp add: column_tasks_unconfigured)
qed

section \<open>Outcomes of a store query\<close>

lemma failedE: "failed r \<Longrightarrow> \<exists>e. awaited r = Inl e"
  by (auto simp: failed_def split: sum.splits)

lemma not_failedE: "\<not> failed r \<Longrightarrow> \<exists>d. awaited r = Inr d"
  by (auto simp: failed_def split: sum.splits)

lemma handleUpdateTask_success:
  "\<not> failed (update_eq_id db taskId updates) \<Longrightarrow>
   handleUpdateTask db st taskId updates =
     (st\<lparr>tasks := map (\<lambda>task. if task_id task = taskId then spread task updates else task)
                       (tasks st)\<rparr>,
      [RemoteCall (Update taskId updates), ToastSuccess ''Task updated successfully''])"
  by (auto simp: handleUpdateTask_def failed_def Let_def split: sum.splits)

section \<open>Drag completion\<close>

text \<open>
  C1. A drop on the column a task is listed in should issue no store query and leave
  the collection as it was. The columns list a task by its lower-cased status, while the
  drop handler compares the status with the identifier of the drop target character for
  character. The task 1 of the sample board has the status \<open>todo\<close> and is listed in
  the column \<open>Todo\<close>: dropping it on that column sends an update of its status to the
  store, and with a store that accepts the update the handler rewrites the status in the
  collection and notifies that the task was moved.
\<close>

theorem drop_on_own_column_issues_update:
  "task1 \<in> set (tasks sample_board)
   \<and> task1 \<in> set (column_tasks sample_board ''Todo'')
   \<and> snd (handleDragEnd store_up sample_board ''1'' (Some ''Todo'')) =
       [RemoteCall (Update ''1'' (no_updates\<lparr>upd_status := Some ''Todo''\<rparr>)),
        ToastSuccess ''Task moved successfully'']
   \<and> tasks (fst (handleDragEnd store_up sample_board ''1'' (Some ''Todo''))) =
       [task1\<lparr>status := ''Todo''\<rparr>, task2]
   \<and> tasks (fst (handleDragEnd store_up sample_board ''1'' (Some ''Todo''))) \<noteq> tasks sample_board"
proof -
  have a: "task1 \<in> set (tasks sample_board)" by (simp add: sample_board_def)
  have b: "task1 \<in> set (column_tasks sample_board ''Todo'')" by code_simp
  have c: "handleDragEnd store_up sample_board ''1'' (Some ''Todo'') =
        (sample_board\<lparr>tasks := [task1\<lparr>status := ''Todo''\<rparr>, task2], activeId := None\<rparr>,
         [RemoteCall (Update ''1'' (no_updates\<lparr>upd_status := Some ''Todo''\<rparr>)),
          ToastSuccess ''Task moved successfully''])"
    by (simp add: handleDragEnd_def sample_board_def task1_def task2_def store_up_def Let_def)
  have d: "[task1\<lparr>status := ''Todo''\<rparr>, task2] \<noteq> tasks sample_board"
    by (simp add: sample_board_def task1_def)
  from a b c d show ?thesis by simp
qed

text \<open>
  The handler does skip the query when the status of the task it looks up is the
  identifier of the drop target character for character.
\<close>

lemma drop_on_exact_status:
  assumes "find (\<lambda>task. task_id task = a) (tasks st) = Some T"
    and "over = Some (status T)"
  shows "handleDragEnd db st a over = (st\<lparr>activeId := None\<rparr>, [])"
  using assms by (simp add: handleDragEnd_def)

text \<open>
  C2. A drag that ends over no drop target returns before the dragged identifier is
  cleared: the state, \<open>activeId\<close> included, is the one before the gesture. The sample
  board, whose \<open>activeId\<close> is the task 1, keeps it.
\<close>

theorem drag_end_without_target_keeps_activeId:
  "handleDragEnd db st a None = (st, [])
   \<and> activeId (fst (handleDragEnd store_up sample_board ''1'' None)) = Some ''1''"
  by (simp add: handleDragEnd_def sample_board_def)

text \<open>With a drop target the identifier is cleared, whatever the store answers.\<close>

lemma drag_end_with_target_clears_activeId:
  "activeId (fst (handleDragEnd db st a (Some c))) = None"
  by (simp add: handleDragEnd_def Let_def split: option.splits sum.splits)

section \<open>Failed mutations\<close>

text \<open>
  C3. When the store query of an add, an update, a delete or a cross-column drop fails
  (its promise rejects, or it resolves with an error), the handler leaves the state as it
  was (the drop clears only the dragged identifier), so the task collection is the one
  before the attempt, and what it did to the outside is the query followed by one failure
  notification. After a failed cross-column drop the dragged task is found with the
  status it had.
\<close>

theorem failed_mutation_keeps_collection:
  "(failed (insert_single db \<lparr>new_title = t, new_description = d, new_status = c,
        new_priority = Medium\<rparr>) \<longrightarrow>
      fst (handleAddTask db st c t d) = st \<and>
      (\<exists>m. snd (handleAddTask db st c t d) =
         [RemoteCall (Insert \<lparr>new_title = t, new_description = d, new_status = c,
            new_priority = Medium\<rparr>), ToastError m]))
   \<and> (failed (update_eq_id db i u) \<longrightarrow>
      fst (handleUpdateTask db st i u) = st \<and>
      (\<exists>m. snd (handleUpdateTask db st i u) = [RemoteCall (Update i u), ToastError m]))
   \<and> (failed (delete_eq_id db i) \<longrightarrow>
      fst (handleDeleteTask db st i) = st \<and>
      (\<exists>m. snd (handleDeleteTask db st i) = [RemoteCall (Delete i), ToastError m]))
   \<and> (find (\<lambda>task. task_id task = a) (tasks st) = Some T \<and> status T \<noteq> c \<and>
      failed (update_eq_id db (task_id T) (no_updates\<lparr>upd_status := Some c\<rparr>)) \<longrightarrow>
      tasks (fst (handleDragEnd db st a (Some c))) = tasks st \<and>
      find (\<lambda>task. task_id task = a) (tasks (fst (handleDragEnd db st a (Some c)))) = Some T \<and>
      (\<exists>m. snd (handleDragEnd db st a (Some c)) =
         [RemoteCall (Update (task_id T) (no_updates\<lparr>upd_status := Some c\<rparr>)), ToastError m]))"
proof (intro conjI impI)
  assume "failed (insert_single db \<lparr>new_title = t, new_description = d, new_status = c,
        new_priority = Medium\<rparr>)"
  from failedE [OF this] show "fst (handleAddTask db st c t d) = st"
    and "\<exists>m. snd (handleAddTask db st c t d) =
         [RemoteCall (Insert \<lparr>new_title = t, new_description = d, new_status = c,
            new_priority = Medium\<rparr>), ToastError m]"
    by (auto simp: handleAddTask_def Let_def)
next
  assume "failed (update_eq_id db i u)"
  from failedE [OF this] show "fst (handleUpdateTask db st i u) = st"
    and "\<exists>m. snd (handleUpdateTask db st i u) = [RemoteCall (Update i u), ToastError m]"
    by (auto simp: handleUpdateTask_def Let_def)
next
  assume "failed (delete_eq_id db i)"
  from failedE [OF this] show "fst (handleDeleteTask db st i) = st"
    and "\<exists>m. snd (handleDeleteTask db st i) = [RemoteCall (Delete i), ToastError m]"
    by (auto simp: handleDeleteTask_def Let_def)
next
  assume h: "find (\<lambda>task. task_id task = a) (tasks st) = Some T \<and> status T \<noteq> c \<and>
      failed (update_eq_id db (task_id T) (no_updates\<lparr>upd_status := Some c\<rparr>))"
  then obtain e where
    e: "awaited (update_eq_id db (task_id T) (no_updates\<lparr>upd_status := Some c\<rparr>)) = Inl e"
    using failedE by blast
  from h e have r: "handleDragEnd db st a (Some c) =
      (st\<lparr>activeId := None\<rparr>,
       [RemoteCall (Update (task_id T) (no_updates\<lparr>upd_status := Some c\<rparr>)),
        ToastError (error_message e ''Failed to update task'')])"
    by (simp add: handleDragEnd_def Let_def)
  from r show "tasks (fst (handleDragEnd db st a (Some c))) = tasks st" by simp
  from r h show "find (\<lambda>task. task_id task = a) (tasks (fst (handleDragEnd db st a (Some c)))) = Some T"
    by simp
  from r show "\<exists>m. snd (handleDragEnd db st a (Some c)) =
         [RemoteCall (Update (task_id T) (no_updates\<lparr>upd_status := Some c\<rparr>)), ToastError m]"
    by simp
qed

theorem failed_mutation_keeps_collection_witness:
  "failed (insert_single store_down \<lparr>new_title = ''Buy milk'', new_description = [],
       new_status = ''Todo'', new_priority = Medium\<rparr>)
   \<and> fst (handleAddTask store_down sample_board ''Todo'' ''Buy milk'' []) = sample_board
   \<and> failed (update_eq_id store_down ''2'' (no_updates\<lparr>upd_title := Some ''Ship''\<rparr>))
   \<and> fst (handleUpdateTask store_down sample_board ''2'' (no_updates\<lparr>upd_title := Some ''Ship''\<rparr>))
       = sample_board
   \<and> failed (delete_eq_id store_down ''2'')
   \<and> fst (handleDeleteTask store_down sample_board ''2'') = sample_board
   \<and> find (\<lambda>task. task_id task = ''1'') (tasks sample_board) = Some task1
   \<and> status task1 \<noteq> ''Done''
   \<and> failed (update_eq_id store_down (task_id task1) (no_updates\<lparr>upd_status := Some ''Done''\<rparr>))
   \<and> tasks (fst (handleDragEnd store_down sample_board ''1'' (Some ''Done''))) = tasks sample_board
   \<and> find (\<lambda>task. task_id task = ''1'')
        (tasks (fst (handleDragEnd store_down sample_board ''1'' (Some ''Done'')))) = Some task1"
proof -
  have a: "failed (insert_single store_down \<lparr>new_title = ''Buy milk'', new_description = [],
       new_status = ''Todo'', new_priority = Medium\<rparr>)"
    by (simp add: failed_def store_down_def)
  have b: "failed (update_eq_id store_down ''2'' (no_updates\<lparr>upd_title := Some ''Ship''\<rparr>))"
    by (simp add: failed_def store_down_def)
  have c: "failed (delete_eq_id store_down ''2'')"
    by (simp add: failed_def store_down_def)
  have d: "find (\<lambda>task. task_id task = ''1'') (tasks sample_board) = Some task1"
    by (simp add: sample_board_def task1_def)
  have e: "status task1 \<noteq> ''Done''" by (simp add: task1_def)
  have f: "failed (update_eq_id store_down (task_id task1) (no_updates\<lparr>upd_status := Some ''Done''\<rparr>))"
    by (simp add: failed_def store_down_def)
  have g: "failed (insert_single store_down \<lparr>new_title = ''Buy milk'', new_description = [],
       new_status = ''Done'', new_priority = Medium\<rparr>)"
    by (simp add: failed_def store_down_def)
  note w1 = failed_mutation_keeps_collection [where db = store_down and t = "''Buy milk''"
      and d = "[]" and c = "''Todo''" and st = sample_board and i = "''2''"
      and u = "no_updates\<lparr>upd_title := Some ''Ship''\<rparr>"]
  note w2 = failed_mutation_keeps_collection [where db = store_down and c = "''Done''"
      and st = sample_board and a = "''1''" and T = task1]
  from w1 a b c have "fst (handleAddTask store_down sample_board ''Todo'' ''Buy milk'' []) = sample_board"
    and "fst (handleUpdateTask store_down sample_board ''2'' (no_updates\<lparr>upd_title := Some ''Ship''\<rparr>))
       = sample_board"
    and "fst (handleDeleteTask store_down sample_board ''2'') = sample_board"
    by blast+
  moreover from w2 d e f
  have "tasks (fst (handleDragEnd store_down sample_board ''1'' (Some ''Done''))) = tasks sample_board"
    and "find (\<lambda>task. task_id task = ''1'')
        (tasks (fst (handleDragEnd store_down sample_board ''1'' (Some ''Done'')))) = Some task1"
    by blast+
  ultimately show ?thesis using a b c d e f by blast
qed

section \<open>Creating a task\<close>

text \<open>
  C5. When the insert resolves without error to a record \<open>data\<close> that is the store's
  canonical record of the submitted candidate, the collection after the add is the prior
  collection followed by \<open>data\<close>: the last element is \<open>data\<close>, its status is the target
  column, its priority is medium, its identifier is the one the store returned, and the
  prior tasks come first in their order. The candidate sent carries no identifier.
\<close>

theorem add_appends_canonical_record:
  assumes "insert_single db \<lparr>new_title = t, new_description = d, new_status = c,
             new_priority = Medium\<rparr> = Resolved (Some data) None"
    and "canonical_for \<lparr>new_title = t, new_description = d, new_status = c,
             new_priority = Medium\<rparr> data"
  shows "tasks (fst (handleAddTask db st c t d)) = tasks st @ [data]
         \<and> last (tasks (fst (handleAddTask db st c t d))) = data
         \<and> status (last (tasks (fst (handleAddTask db st c t d)))) = c
         \<and> priority (last (tasks (fst (handleAddTask db st c t d)))) = Medium
         \<and> task_id (last (tasks (fst (handleAddTask db st c t d)))) = task_id data
         \<and> take (length (tasks st)) (tasks (fst (handleAddTask db st c t d))) = tasks st
         \<and> snd (handleAddTask db st c t d) =
             [RemoteCall (Insert \<lparr>new_title = t, new_description = d, new_status = c,
                new_priority = Medium\<rparr>), ToastSuccess ''Task created successfully'']"
  using assms by (simp add: handleAddTask_def canonical_for_def)

theorem add_appends_canonical_record_witness:
  "insert_single store_up \<lparr>new_title = ''Buy milk'', new_description = [], new_status = ''Todo'',
       new_priority = Medium\<rparr> =
     Resolved (Some \<lparr>task_id = ''3'', title = ''Buy milk'', description = [], status = ''Todo'',
       priority = Medium, assignee = None\<rparr>) None
   \<and> canonical_for \<lparr>new_title = ''Buy milk'', new_description = [], new_status = ''Todo'',
       new_priority = Medium\<rparr>
       \<lparr>task_id = ''3'', title = ''Buy milk'', description = [], status = ''Todo'',
       priority = Medium, assignee = None\<rparr>
   \<and> tasks (fst (handleAddTask store_up sample_board ''Todo'' ''Buy milk'' [])) =
       [task1, task2, \<lparr>task_id = ''3'', title = ''Buy milk'', description = [], status = ''Todo'',
       priority = Medium, assignee = None\<rparr>]
   \<and> task_id (last (tasks (fst (handleAddTask store_up sample_board ''Todo'' ''Buy milk'' []))))
       = ''3''"
proof -
  have a: "insert_single store_up \<lparr>new_title = ''Buy milk'', new_description = [],
       new_status = ''Todo'', new_priority = Medium\<rparr> =
     Resolved (Some \<lparr>task_id = ''3'', title = ''Buy milk'', description = [], status = ''Todo'',
       priority = Medium, assignee = None\<rparr>) None"
    by (simp add: store_up_def)
  have b: "canonical_for \<lparr>new_title = ''Buy milk'', new_description = [], new_status = ''Todo'',
       new_priority = Medium\<rparr>
       \<lparr>task_id = ''3'', title = ''Buy milk'', description = [], status = ''Todo'',
       priority = Medium, assignee = None\<rparr>"
    by (simp add: canonical_for_def)
  have c: "tasks sample_board = [task1, task2]" by (simp add: sample_board_def)
  from add_appends_canonical_record [OF a b, of sample_board] a b c show ?thesis by simp
qed

text \<open>
  C7. Submitting the form of a column while the title is empty or all white space
  changes nothing and issues no store query, and the submit button is disabled. With any
  other title, the create operation of the board runs with the trimmed title and the
  trimmed description: its insert query, the only query issued, carries both, and the
  form is reset.
\<close>

theorem add_form_submission:
  "((\<forall>ch\<in>set (newTaskTitle form). isWhiteSpace ch) \<longrightarrow>
      add_button_disabled form \<and>
      column_handleAddTask db columnId (form, st) = ((form, st), []))
   \<and> ((\<exists>ch\<in>set (newTaskTitle form). \<not> isWhiteSpace ch) \<longrightarrow>
      \<not> add_button_disabled form \<and>
      column_handleAddTask db columnId (form, st) =
        ((form\<lparr>newTaskTitle := [], newTaskDescription := [], isAddingTask := False\<rparr>,
          fst (handleAddTask db st columnId (trim (newTaskTitle form))
                 (trim (newTaskDescription form)))),
         snd (handleAddTask db st columnId (trim (newTaskTitle form))
                 (trim (newTaskDescription form)))) \<and>
      (\<exists>rest. snd (column_handleAddTask db columnId (form, st)) =
         RemoteCall (Insert \<lparr>new_title = trim (newTaskTitle form),
           new_description = trim (newTaskDescription form), new_status = columnId,
           new_priority = Medium\<rparr>) # rest \<and> (\<forall>r. RemoteCall r \<notin> set rest)))"
proof (intro conjI impI)
  assume w: "\<forall>ch\<in>set (newTaskTitle form). isWhiteSpace ch"
  then have e: "trim (newTaskTitle form) = []" by (simp add: trim_empty_iff)
  then show "add_button_disabled form" by (simp add: add_button_disabled_def)
  from e show "column_handleAddTask db columnId (form, st) = ((form, st), [])"
    by (simp add: column_handleAddTask_def)
next
  assume w: "\<exists>ch\<in>set (newTaskTitle form). \<not> isWhiteSpace ch"
  then have e: "trim (newTaskTitle form) \<noteq> []" by (simp add: trim_empty_iff)
  then show "\<not> add_button_disabled form" by (simp add: add_button_disabled_def)
  from e show c: "column_handleAddTask db columnId (form, st) =
        ((form\<lparr>newTaskTitle := [], newTaskDescription := [], isAddingTask := False\<rparr>,
          fst (handleAddTask db st columnId (trim (newTaskTitle form))
                 (trim (newTaskDescription form)))),
         snd (handleAddTask db st columnId (trim (newTaskTitle form))
                 (trim (newTaskDescription form))))"
    by (simp add: column_handleAddTask_def split: prod.splits)
  show "\<exists>rest. snd (column_handleAddTask db columnId (form, st)) =
         RemoteCall (Insert \<lparr>new_title = trim (newTaskTitle form),
           new_description = trim (newTaskDescription form), new_status = columnId,
           new_priority = Medium\<rparr>) # rest \<and> (\<forall>r. RemoteCall r \<notin> set rest)"
    unfolding c by (simp add: handleAddTask_def Let_def split: sum.splits option.splits)
qed

theorem add_form_submission_witness:
  "trim (newTaskTitle blank_form) = []
   \<and> column_handleAddTask store_up ''Todo'' (blank_form, sample_board) = ((blank_form, sample_board), [])
   \<and> trim (newTaskTitle milk_form) = ''Buy milk''
   \<and> snd (column_handleAddTask store_up ''Todo'' (milk_form, sample_board)) =
       [RemoteCall (Insert \<lparr>new_title = ''Buy milk'', new_description = ''2 l'',
          new_status = ''Todo'', new_priority = Medium\<rparr>),
        ToastSuccess ''Task created successfully'']"
proof -
  have a: "\<forall>ch\<in>set (newTaskTitle blank_form). isWhiteSpace ch" by code_simp
  have b: "\<exists>ch\<in>set (newTaskTitle milk_form). \<not> isWhiteSpace ch" by code_simp
  have t: "trim (newTaskTitle milk_form) = ''Buy milk''" by code_simp
  have d: "trim (newTaskDescription milk_form) = ''2 l''" by code_simp
  have h: "snd (handleAddTask store_up sample_board ''Todo'' ''Buy milk'' ''2 l'') =
       [RemoteCall (Insert \<lparr>new_title = ''Buy milk'', new_description = ''2 l'',
          new_status = ''Todo'', new_priority = Medium\<rparr>),
        ToastSuccess ''Task created successfully'']"
    by (simp add: handleAddTask_def store_up_def)
  from add_form_submission [of blank_form store_up "''Todo''" sample_board] a
  have "column_handleAddTask store_up ''Todo'' (blank_form, sample_board) = ((blank_form, sample_board), [])"
    by blast
  moreover from add_form_submission [of milk_form store_up "''Todo''" sample_board] b
  have "column_handleAddTask store_up ''Todo'' (milk_form, sample_board) =
        ((milk_form\<lparr>newTaskTitle := [], newTaskDescription := [], isAddingTask := False\<rparr>,
          fst (handleAddTask store_up sample_board ''Todo'' (trim (newTaskTitle milk_form))
                 (trim (newTaskDescription milk_form)))),
         snd (handleAddTask store_up sample_board ''Todo'' (trim (newTaskTitle milk_form))
                 (trim (newTaskDescription milk_form))))"
    by blast
  then have "snd (column_handleAddTask store_up ''Todo'' (milk_form, sample_board)) =
       [RemoteCall (Insert \<lparr>new_title = ''Buy milk'', new_description = ''2 l'',
          new_status = ''Todo'', new_priority = Medium\<rparr>),
        ToastSuccess ''Task created successfully'']"
    by (simp add: t d h)
  moreover have "trim (newTaskTitle blank_form) = []" by code_simp
  ultimately show ?thesis using t by blast
qed

section \<open>Editing and deleting\<close>

text \<open>
  C6. After an update that the store accepts, the collection has the length it had; at
  every position, a task with another identifier is the task that was there, and a task
  with the updated identifier keeps every field whose key the update does not carry. An
  update of the description alone changes the description and nothing else.
\<close>

theorem update_preserves_unrelated:
  assumes "\<not> failed (update_eq_id db taskId updates)" and "i < length (tasks st)"
  shows "length (tasks (fst (handleUpdateTask db st taskId updates))) = length (tasks st)
    \<and> (task_id (tasks st ! i) \<noteq> taskId \<longrightarrow>
         tasks (fst (handleUpdateTask db st taskId updates)) ! i = tasks st ! i)
    \<and> (task_id (tasks st ! i) = taskId \<longrightarrow>
         (upd_id updates = None \<longrightarrow>
            task_id (tasks (fst (handleUpdateTask db st taskId updates)) ! i) = task_id (tasks st ! i)) \<and>
         (upd_title updates = None \<longrightarrow>
            title (tasks (fst (handleUpdateTask db st taskId updates)) ! i) = title (tasks st ! i)) \<and>
         (upd_description updates = None \<longrightarrow>
            description (tasks (fst (handleUpdateTask db st taskId updates)) ! i) =
              description (tasks st ! i)) \<and>
         (upd_status updates = None \<longrightarrow>
            status (tasks (fst (handleUpdateTask db st taskId updates)) ! i) = status (tasks st ! i)) \<and>
         (upd_priority updates = None \<longrightarrow>
            priority (tasks (fst (handleUpdateTask db st taskId updates)) ! i) =
              priority (tasks st ! i)) \<and>
         (upd_assignee updates = None \<longrightarrow>
            assignee (tasks (fst (handleUpdateTask db st taskId updates)) ! i) =
              assignee (tasks st ! i)) \<and>
         (\<forall>d. updates = no_updates\<lparr>upd_description := Some d\<rparr> \<longrightarrow>
            tasks (fst (handleUpdateTask db st taskId updates)) ! i =
              (tasks st ! i)\<lparr>description := d\<rparr>))"
  using assms(2) unfolding handleUpdateTask_success [OF assms(1)]
  by (auto simp: spread_def no_updates_def)

theorem update_preserves_unrelated_witness:
  "\<not> failed (update_eq_id store_up ''2'' (no_updates\<lparr>upd_description := Some ''v2''\<rparr>))
   \<and> (1::nat) < length (tasks sample_board)
   \<and> tasks (fst (handleUpdateTask store_up sample_board ''2''
         (no_updates\<lparr>upd_description := Some ''v2''\<rparr>))) ! 1 = task2\<lparr>description := ''v2''\<rparr>
   \<and> tasks (fst (handleUpdateTask store_up sample_board ''2''
         (no_updates\<lparr>upd_description := Some ''v2''\<rparr>))) ! 0 = task1"
proof -
  let ?u = "no_updates\<lparr>upd_description := Some ''v2''\<rparr>"
  have a: "\<not> failed (update_eq_id store_up ''2'' ?u)" by (simp add: failed_def store_up_def)
  have b: "(1::nat) < length (tasks sample_board)" by (simp add: sample_board_def)
  have c: "(0::nat) < length (tasks sample_board)" by (simp add: sample_board_def)
  have d: "task_id (tasks sample_board ! 1) = ''2''" by (simp add: sample_board_def task2_def)
  have e: "task_id (tasks sample_board ! 0) \<noteq> ''2''" by (simp add: sample_board_def task1_def)
  have f: "tasks sample_board ! 1 = task2" "tasks sample_board ! 0 = task1"
    by (simp_all add: sample_board_def)
  from update_preserves_unrelated [OF a b] d f
  have "tasks (fst (handleUpdateTask store_up sample_board ''2'' ?u)) ! 1 = task2\<lparr>description := ''v2''\<rparr>"
    by simp
  moreover from update_preserves_unrelated [OF a c] e f
  have "tasks (fst (handleUpdateTask store_up sample_board ''2'' ?u)) ! 0 = task1"
    by simp
  ultimately show ?thesis using a b by blast
qed

text \<open>
  C8. For an identifier that no task of the collection has, filtering the collection on
  that identifier gives the collection back, and the delete handler, whatever the store
  answers, leaves the collection as it was. The handler is a total function: it has no
  failing branch of its own.
\<close>

theorem delete_absent_id_keeps_collection:
  assumes "taskId \<notin> task_id ` set (tasks st)"
  shows "filter (\<lambda>task. task_id task \<noteq> taskId) (tasks st) = tasks st
         \<and> tasks (fst (handleDeleteTask db st taskId)) = tasks st"
proof -
  have "filter (\<lambda>task. task_id task \<noteq> taskId) (tasks st) = tasks st"
    using assms by (induction "tasks st") (auto simp: filter_id_conv)
  then show ?thesis
    by (simp add: handleDeleteTask_def Let_def split: sum.splits)
qed

theorem delete_absent_id_keeps_collection_witness:
  "''9'' \<notin> task_id ` set (tasks sample_board)
   \<and> tasks (fst (handleDeleteTask store_up sample_board ''9'')) = tasks sample_board"
proof -
  have a: "''9'' \<notin> task_id ` set (tasks sample_board)"
    by (simp add: sample_board_def task1_def task2_def)
  from delete_absent_id_keeps_collection [OF a] a show ?thesis by blast
qed

section \<open>Uniqueness of identifiers\<close>

lemma distinct_map_upd_same_key:
  "(\<And>x. x \<in> set xs \<Longrightarrow> k (f x) = k x) \<Longrightarrow> map k (map f xs) = map k xs"
  by (induction xs) auto

text \<open>
  C9, as the code has it. Let the identifiers of the collection be pairwise distinct.
  They are still pairwise distinct after a load whose listing, if the store gives one,
  has pairwise distinct identifiers; after an add whose returned record, if the store
  gives one, has an identifier not in the collection; after an update that does not carry
  the key \<open>id\<close>; after a delete; and after a drag completion. This holds whether the
  store accepts the query or not.
\<close>

theorem ids_stay_distinct:
  assumes "distinct (map task_id (tasks st))"
  shows "((\<forall>ts. awaited (select_all db) = Inr (Some ts) \<longrightarrow> distinct (map task_id ts)) \<longrightarrow>
            distinct (map task_id (tasks (fst (fetchTasks db st)))))
    \<and> ((\<forall>data. awaited (insert_single db \<lparr>new_title = t, new_description = d, new_status = c,
              new_priority = Medium\<rparr>) = Inr (Some data) \<longrightarrow>
              task_id data \<notin> task_id ` set (tasks st)) \<longrightarrow>
            distinct (map task_id (tasks (fst (handleAddTask db st c t d)))))
    \<and> (upd_id updates = None \<longrightarrow>
            distinct (map task_id (tasks (fst (handleUpdateTask db st taskId updates)))))
    \<and> distinct (map task_id (tasks (fst (handleDeleteTask db st taskId))))
    \<and> distinct (map task_id (tasks (fst (handleDragEnd db st a over))))"
proof (intro conjI impI)
  assume "\<forall>ts. awaited (select_all db) = Inr (Some ts) \<longrightarrow> distinct (map task_id ts)"
  with assms show "distinct (map task_id (tasks (fst (fetchTasks db st))))"
    by (auto simp: fetchTasks_def Let_def split: sum.splits option.splits)
next
  assume "\<forall>data. awaited (insert_single db \<lparr>new_title = t, new_description = d, new_status = c,
              new_priority = Medium\<rparr>) = Inr (Some data) \<longrightarrow>
              task_id data \<notin> task_id ` set (tasks st)"
  with assms show "distinct (map task_id (tasks (fst (handleAddTask db st c t d))))"
    by (auto simp: handleAddTask_def Let_def split: sum.splits option.splits)
next
  assume n: "upd_id updates = None"
  have eq: "map task_id (map (\<lambda>task. if task_id task = taskId then spread task updates else task)
          (tasks st)) = map task_id (tasks st)"
    using n by (intro distinct_map_upd_same_key) (simp add: spread_def)
  show "distinct (map task_id (tasks (fst (handleUpdateTask db st taskId updates))))"
  proof (cases "awaited (update_eq_id db taskId updates)")
    case (Inl e)
    then show ?thesis using assms by (simp add: handleUpdateTask_def)
  next
    case (Inr u)
    then have t: "tasks (fst (handleUpdateTask db st taskId updates)) =
        map (\<lambda>task. if task_id task = taskId then spread task updates else task) (tasks st)"
      by (simp add: handleUpdateTask_def)
    show ?thesis unfolding t eq by (rule assms)
  qed
next
  from assms show "distinct (map task_id (tasks (fst (handleDeleteTask db st taskId))))"
    by (simp add: handleDeleteTask_def Let_def distinct_map_filter split: sum.splits)
next
  have eq: "\<And>T c. map task_id (map (\<lambda>task. if task_id task = task_id T
          then task\<lparr>status := c\<rparr> else task) (tasks st)) = map task_id (tasks st)"
    by (intro distinct_map_upd_same_key) simp
  show "distinct (map task_id (tasks (fst (handleDragEnd db st a over))))"
  proof (cases "\<exists>c T. over = Some c \<and> find (\<lambda>task. task_id task = a) (tasks st) = Some T
      \<and> status T \<noteq> c
      \<and> \<not> failed (update_eq_id db (task_id T) (no_updates\<lparr>upd_status := Some c\<rparr>))")
    case True
    then obtain c T where "over = Some c"
      and "find (\<lambda>task. task_id task = a) (tasks st) = Some T" and "status T \<noteq> c"
      and "\<not> failed (update_eq_id db (task_id T) (no_updates\<lparr>upd_status := Some c\<rparr>))"
      by blast
    then have t: "tasks (fst (handleDragEnd db st a over)) =
        map (\<lambda>task. if task_id task = task_id T then task\<lparr>status := c\<rparr> else task) (tasks st)"
      by (auto simp: handleDragEnd_def Let_def failed_def split: sum.splits)
    show ?thesis unfolding t eq by (rule assms)
  next
    case False
    then have t: "tasks (fst (handleDragEnd db st a over)) = tasks st"
      by (auto simp: handleDragEnd_def Let_def failed_def split: sum.splits option.splits)
    show ?thesis unfolding t by (rule assms)
  qed
qed

theorem ids_stay_distinct_witness:
  "distinct (map task_id (tasks sample_board))
   \<and> select_all store_up = Resolved (Some [task1, task2]) None
   \<and> distinct (map task_id [task1, task2])
   \<and> distinct (map task_id (tasks (fst (fetchTasks store_up sample_board))))
   \<and> task_id (tasks (fst (handleAddTask store_up sample_board ''Todo'' ''Buy milk'' [])) ! 2) = ''3''
   \<and> distinct (map task_id (tasks (fst (handleAddTask store_up sample_board ''Todo'' ''Buy milk'' []))))
   \<and> upd_id (no_updates\<lparr>upd_title := Some ''Ship''\<rparr>) = None
   \<and> distinct (map task_id (tasks (fst (handleUpdateTask store_up sample_board ''2''
         (no_updates\<lparr>upd_title := Some ''Ship''\<rparr>)))))
   \<and> distinct (map task_id (tasks (fst (handleDeleteTask store_up sample_board ''2''))))
   \<and> distinct (map task_id (tasks (fst (handleDragEnd store_up sample_board ''1'' (Some ''Done'')))))"
proof -
  have a: "distinct (map task_id (tasks sample_board))"
    by (simp add: sample_board_def task1_def task2_def)
  have b: "\<forall>ts. awaited (select_all store_up) = Inr (Some ts) \<longrightarrow> distinct (map task_id ts)"
    by (simp add: store_up_def task1_def task2_def)
  have c: "\<forall>data. awaited (insert_single store_up \<lparr>new_title = ''Buy milk'', new_description = [],
          new_status = ''Todo'', new_priority = Medium\<rparr>) = Inr (Some data) \<longrightarrow>
          task_id data \<notin> task_id ` set (tasks sample_board)"
    by (auto simp: store_up_def sample_board_def task1_def task2_def)
  have d: "upd_id (no_updates\<lparr>upd_title := Some ''Ship''\<rparr>) = None" by (simp add: no_updates_def)
  from ids_stay_distinct [OF a, of store_up "''Buy milk''" "[]" "''Todo''"
      "no_updates\<lparr>upd_title := Some ''Ship''\<rparr>" "''2''" "''1''" "Some ''Done''"] a b c d
  have e: "distinct (map task_id (tasks (fst (fetchTasks store_up sample_board))))"
    and "distinct (map task_id (tasks (fst (handleAddTask store_up sample_board ''Todo''
           ''Buy milk'' []))))"
    and "distinct (map task_id (tasks (fst (handleUpdateTask store_up sample_board ''2''
           (no_updates\<lparr>upd_title := Some ''Ship''\<rparr>)))))"
    and "distinct (map task_id (tasks (fst (handleDeleteTask store_up sample_board ''2''))))"
    and "distinct (map task_id (tasks (fst (handleDragEnd store_up sample_board ''1''
           (Some ''Done'')))))"
    by blast+
  moreover have "select_all store_up = Resolved (Some [task1, task2]) None"
    by (simp add: store_up_def)
  moreover have "distinct (map task_id [task1, task2])" by (simp add: task1_def task2_def)
  moreover have "task_id (tasks (fst (handleAddTask store_up sample_board ''Todo''
      ''Buy milk'' [])) ! 2) = ''3''"
    by (simp add: handleAddTask_def store_up_def sample_board_def)
  ultimately show ?thesis using a d by blast
qed

text \<open>
  The collection takes the listing of the store as it comes, and an update may carry the
  key \<open>id\<close>: a listing with one record twice, and an accepted update that renames the
  task 1 to 2, each leave two entries with one identifier.
\<close>

theorem ids_stay_distinct_counterexample:
  "distinct (map task_id (tasks sample_board))
   \<and> \<not> distinct (map task_id (tasks (fst (fetchTasks store_dup sample_board))))
   \<and> \<not> failed (update_eq_id store_up ''1'' (no_updates\<lparr>upd_id := Some ''2''\<rparr>))
   \<and> \<not> distinct (map task_id (tasks (fst (handleUpdateTask store_up sample_board ''1''
            (no_updates\<lparr>upd_id := Some ''2''\<rparr>)))))"
  by (simp add: sample_board_def task1_def task2_def fetchTasks_def store_dup_def store_up_def
      handleUpdateTask_def spread_def no_updates_def failed_def Let_def)

end
